theory Spec2Isabelle
  imports Complex_Main
begin

section \<open>Data model\<close>

text \<open>
  The repository keeps its tables in module-level dictionaries of dictionaries. Each
  table is a map from the key to a record of the fields the modelled functions read or
  write. Python integers are \<open>int\<close>. Prices are Python numbers; they are idealised as
  exact rationals (a decimal literal denotes its decimal value and arithmetic does not
  round). Strings are ASCII.

  Every read of a product's stock in the source is \<^verbatim>\<open>product.get("stock", 0)\<close>, so a
  product without the key behaves as one whose stock is 0, and \<open>p_stock\<close> is that value.
  Likewise \<open>p_name\<close> and \<open>p_sku\<close> are what \<^verbatim>\<open>product.get("name", "")\<close> and
  \<^verbatim>\<open>product.get("sku", "")\<close> read, and \<open>u_active\<close> is the truth value of
  \<^verbatim>\<open>user.get("active")\<close>. A record always has its key field, so the stored
  dictionaries are never empty (an empty dictionary would be falsy in \<^verbatim>\<open>if not x\<close>).
\<close>

record user =
  u_id :: string
  u_active :: bool

record product =
  p_id :: string
  p_name :: string
  p_sku :: string
  p_price :: rat
  p_stock :: int
  p_active :: bool

text \<open>An item as the caller passes it: every key may be absent.\<close>

record item_in =
  in_product_id :: "string option"
  in_quantity :: "int option"
  in_price :: "rat option"

text \<open>An item as \<^verbatim>\<open>create_order_item\<close> stores it in the order.\<close>

record order_item =
  oi_product_id :: string
  oi_quantity :: int
  oi_price :: rat
  oi_subtotal :: rat

record order =
  o_id :: string
  o_user_id :: string
  o_items :: "order_item list"
  o_total :: rat
  o_currency :: string
  o_status :: string

record notification =
  n_id :: string
  n_user_id :: string
  n_channel :: string
  n_subject :: string
  n_body :: string
  n_read :: bool

record queue_entry =
  q_id :: string
  q_notification :: notification
  q_priority :: int
  q_status :: string

text \<open>
  The module-level tables: \<^verbatim>\<open>_users_db\<close>, \<^verbatim>\<open>_products_db\<close>, \<^verbatim>\<open>_orders_db\<close>,
  \<^verbatim>\<open>_user_order_index\<close> and the notification \<^verbatim>\<open>_queue\<close>. Every function that
  reads or mutates them takes the state and, when it mutates, returns the new one.
  A dictionary stored in a table is mutated in place by the source; here the table is
  updated at the key under which the dictionary is stored.
\<close>

record state =
  users_db :: "string \<rightharpoonup> user"
  products_db :: "string \<rightharpoonup> product"
  orders_db :: "string \<rightharpoonup> order"
  user_order_index :: "string \<rightharpoonup> string list"
  queue :: "queue_entry list"

text \<open>An error response: the code and the message of \<^verbatim>\<open>format_error\<close>.\<close>

type_synonym error = "string \<times> string"

section \<open>formatters.py, utils.py\<close>

definition truncate_string :: "string \<Rightarrow> nat \<Rightarrow> string" where
  "truncate_string v max_len =
     (if length v \<le> max_len then v else take (max_len - 3) v @ ''...'')"

definition format_error :: "string \<Rightarrow> string \<Rightarrow> error" where
  "format_error code message = (code, truncate_string message 500)"

text \<open>
  \<^verbatim>\<open>generate_id\<close> draws a random UUID; the drawn string \<open>uid\<close> is a parameter.
\<close>

definition generate_id :: "string \<Rightarrow> string \<Rightarrow> string" where
  "generate_id prefix uid = (if prefix \<noteq> [] then prefix @ ''_'' @ take 8 uid else uid)"

section \<open>product_repository.py\<close>

definition find_product_by_id :: "state \<Rightarrow> string \<Rightarrow> product option" where
  "find_product_by_id st product_id = products_db st product_id"

definition update_stock :: "string \<Rightarrow> int \<Rightarrow> state \<Rightarrow> int option \<times> state" where
  "update_stock product_id quantity_change st =
     (case find_product_by_id st product_id of
        None \<Rightarrow> (None, st)
      | Some product \<Rightarrow>
          (let new_stock = p_stock product + quantity_change in
           if new_stock < 0 then (None, st)
           else (Some new_stock,
                 st\<lparr>products_db :=
                      (products_db st)(product_id \<mapsto> product\<lparr>p_stock := new_stock\<rparr>)\<rparr>)))"

text \<open>
  A sequence of \<^verbatim>\<open>update_stock\<close> calls, each with its product id and its change,
  run one after the other on the state.
\<close>

fun update_stock_calls :: "(string \<times> int) list \<Rightarrow> state \<Rightarrow> state" where
  "update_stock_calls [] st = st"
| "update_stock_calls ((product_id, quantity_change) # calls) st =
     update_stock_calls calls (snd (update_stock product_id quantity_change st))"

text \<open>The stock the table holds for a product id, when the product exists.\<close>

definition stock_of :: "state \<Rightarrow> string \<Rightarrow> int option" where
  "stock_of st product_id = map_option p_stock (products_db st product_id)"

section \<open>inventory_service.py: classification\<close>

definition classify_stock_level :: "int \<Rightarrow> string" where
  "classify_stock_level stock =
     (if stock \<le> 0 then ''out_of_stock''
      else if stock \<le> 10 then ''low''
      else if stock \<le> 50 then ''medium''
      else ''high'')"

section \<open>user_repository.py\<close>

definition find_user_by_id :: "state \<Rightarrow> string \<Rightarrow> user option" where
  "find_user_by_id st user_id = users_db st user_id"

section \<open>validators.py\<close>

text \<open>\<^verbatim>\<open>str.upper\<close> on ASCII: the letters a to z move to A to Z.\<close>

definition upper_char :: "char \<Rightarrow> char" where
  "upper_char c =
     (let n = (of_char c :: nat) in if 97 \<le> n \<and> n \<le> 122 then char_of (n - 32) else c)"

definition upper :: "string \<Rightarrow> string" where
  "upper s = map upper_char s"

definition get_valid_currencies :: "string set" where
  "get_valid_currencies = {''USD'', ''EUR'', ''GBP'', ''JPY'', ''PLN'', ''CAD''}"

definition validate_currency :: "string \<Rightarrow> bool" where
  "validate_currency currency = (upper currency \<in> get_valid_currencies)"

text \<open>
  \<^verbatim>\<open>f"{value:.10f}"\<close> prints the value rounded to ten decimal places, ties to the
  even neighbour. \<open>round_half_even\<close> is that rounding of a scaled value, and
  \<open>frac_digits 10\<close> lists the ten digits after the point, which is what
  \<^verbatim>\<open>str_val.split(".")[1]\<close> holds.
\<close>

definition round_half_even :: "rat \<Rightarrow> int" where
  "round_half_even x =
     (let f = \<lfloor>x\<rfloor>; r = x - of_int f in
      if r < 1 / 2 then f
      else if 1 / 2 < r then f + 1
      else if even f then f else f + 1)"

fun frac_digits :: "nat \<Rightarrow> int \<Rightarrow> int list" where
  "frac_digits 0 n = []"
| "frac_digits (Suc k) n = frac_digits k (n div 10) @ [n mod 10]"

definition rstrip_zeros :: "int list \<Rightarrow> int list" where
  "rstrip_zeros ds = rev (dropWhile (\<lambda>d. d = 0) (rev ds))"

definition validate_decimal_places :: "rat \<Rightarrow> nat \<Rightarrow> bool" where
  "validate_decimal_places v max_places =
     (let scaled = round_half_even (\<bar>v\<bar> * 10 ^ 10);
          decimal_part = rstrip_zeros (frac_digits 10 (scaled mod 10 ^ 10))
      in length decimal_part \<le> max_places)"

text \<open>
  \<^verbatim>\<open>validate_amount(amount, min_val=0.01, max_val=999999.99)\<close>; callers that pass
  the amount alone get the defaults \<open>amount_min_val\<close> and \<open>amount_max_val\<close>.
\<close>

definition validate_amount :: "rat \<Rightarrow> rat \<Rightarrow> rat \<Rightarrow> bool" where
  "validate_amount amount min_val max_val =
     (if amount < min_val \<or> amount > max_val then False
      else validate_decimal_places amount 2)"

definition amount_min_val :: rat where
  "amount_min_val = 1 / 100"

definition amount_max_val :: rat where
  "amount_max_val = 99999999 / 100"

text \<open>The quantity is an \<open>int\<close> by its type, so \<^verbatim>\<open>isinstance(quantity, int)\<close> holds.\<close>

definition validate_quantity :: "int \<Rightarrow> bool" where
  "validate_quantity quantity = (0 < quantity \<and> quantity \<le> 10000)"

section \<open>models.py\<close>

text \<open>\<^verbatim>\<open>d.get(key, default)\<close> on a key that may be absent.\<close>

definition dict_get :: "'a option \<Rightarrow> 'a \<Rightarrow> 'a" where
  "dict_get v dflt = (case v of None \<Rightarrow> dflt | Some x \<Rightarrow> x)"

text \<open>\<^verbatim>\<open>sum(xs)\<close>: the additions run from the left, starting at 0.\<close>

definition py_sum :: "rat list \<Rightarrow> rat" where
  "py_sum xs = foldl (+) 0 xs"

definition create_order_item :: "item_in \<Rightarrow> order_item" where
  "create_order_item item =
     (let qty = dict_get (in_quantity item) 1;
          price = dict_get (in_price item) 0
      in \<lparr>oi_product_id = dict_get (in_product_id item) [],
          oi_quantity = qty,
          oi_price = price,
          oi_subtotal = of_int qty * price\<rparr>)"

definition create_order_model :: "string \<Rightarrow> string \<Rightarrow> item_in list \<Rightarrow> string \<Rightarrow> order" where
  "create_order_model uid user_id items currency =
     (let order_items = map create_order_item items;
          total = py_sum (map oi_subtotal order_items)
      in \<lparr>o_id = generate_id ''ord'' uid,
          o_user_id = user_id,
          o_items = order_items,
          o_total = total,
          o_currency = currency,
          o_status = ''created''\<rparr>)"

section \<open>order_repository.py\<close>

definition find_order_by_id :: "state \<Rightarrow> string \<Rightarrow> order option" where
  "find_order_by_id st order_id = orders_db st order_id"

definition index_order_by_user :: "order \<Rightarrow> state \<Rightarrow> state" where
  "index_order_by_user order st =
     (let user_id = o_user_id order;
          ids = (case user_order_index st user_id of None \<Rightarrow> [] | Some l \<Rightarrow> l)
      in st\<lparr>user_order_index := (user_order_index st)(user_id \<mapsto> ids @ [o_id order])\<rparr>)"

definition create_order_record :: "order \<Rightarrow> state \<Rightarrow> order \<times> state" where
  "create_order_record order st =
     (let order_id = o_id order;
          st1 = st\<lparr>orders_db := (orders_db st)(order_id \<mapsto> order)\<rparr>
      in (order, index_order_by_user order st1))"

definition valid_transitions :: "(string \<times> string list) list" where
  "valid_transitions =
     [(''created'', [''pending'', ''cancelled'']),
      (''pending'', [''processing'', ''cancelled'']),
      (''processing'', [''shipped'', ''cancelled'']),
      (''shipped'', [''delivered'']),
      (''delivered'', [''returned''])]"

definition is_valid_status_transition :: "string \<Rightarrow> string \<Rightarrow> bool" where
  "is_valid_status_transition current target =
     (target \<in> set (case map_of valid_transitions current of None \<Rightarrow> [] | Some ts \<Rightarrow> ts))"

definition update_order_status :: "string \<Rightarrow> string \<Rightarrow> state \<Rightarrow> order option \<times> state" where
  "update_order_status order_id status st =
     (case find_order_by_id st order_id of
        None \<Rightarrow> (None, st)
      | Some order \<Rightarrow>
          if \<not> is_valid_status_transition (o_status order) status then (None, st)
          else (let order' = order\<lparr>o_status := status\<rparr>
                in (Some order', st\<lparr>orders_db := (orders_db st)(order_id \<mapsto> order')\<rparr>)))"

text \<open>
  A sequence of \<^verbatim>\<open>update_order_status\<close> calls, each with its order id and its
  target status, run one after the other on the state.
\<close>

fun update_order_status_calls :: "(string \<times> string) list \<Rightarrow> state \<Rightarrow> state" where
  "update_order_status_calls [] st = st"
| "update_order_status_calls ((order_id, status) # calls) st =
     update_order_status_calls calls (snd (update_order_status order_id status st))"

text \<open>
  The transition table as the specification prints it, and the statuses that the
  table reaches from \<open>created\<close>.
\<close>

definition spec_transition_table :: "(string \<times> string) set" where
  "spec_transition_table =
     {(''created'', ''pending''), (''created'', ''cancelled''),
      (''pending'', ''processing''), (''pending'', ''cancelled''),
      (''processing'', ''shipped''), (''processing'', ''cancelled''),
      (''shipped'', ''delivered''),
      (''delivered'', ''returned'')}"

inductive reachable_status :: "string \<Rightarrow> bool" where
  initial: "reachable_status ''created''"
| step: "reachable_status current \<Longrightarrow> (current, target) \<in> spec_transition_table \<Longrightarrow>
         reachable_status target"

section \<open>order_service.py\<close>

definition check_product_exists :: "state \<Rightarrow> string \<Rightarrow> bool" where
  "check_product_exists st product_id = (find_product_by_id st product_id \<noteq> None)"

text \<open>
  \<^verbatim>\<open>validate_order_items\<close> returns the dictionary \<^verbatim>\<open>{"valid": .., "reason": ..}\<close>,
  here the pair of the two values. The loop returns at the first item that fails.
  \<^verbatim>\<open>str(None)\<close> is the text an absent product id prints as.
\<close>

fun validate_order_items_loop :: "state \<Rightarrow> item_in list \<Rightarrow> bool \<times> string" where
  "validate_order_items_loop st [] = (True, [])"
| "validate_order_items_loop st (item # rest) =
     (if \<not> validate_quantity (dict_get (in_quantity item) 0) then (False, ''Invalid quantity'')
      else if \<not> validate_amount (dict_get (in_price item) 0) amount_min_val amount_max_val
        then (False, ''Invalid price'')
      else if \<not> check_product_exists st (dict_get (in_product_id item) [])
        then (False, ''Product '' @ dict_get (in_product_id item) ''None'' @ '' not found'')
      else validate_order_items_loop st rest)"

definition validate_order_items :: "state \<Rightarrow> item_in list \<Rightarrow> bool \<times> string" where
  "validate_order_items st items =
     (if items = [] then (False, ''No items'') else validate_order_items_loop st items)"

text \<open>The return value of each \<^verbatim>\<open>update_stock\<close> call is dropped, as in the source.\<close>

fun reserve_order_stock_loop :: "order_item list \<Rightarrow> state \<Rightarrow> state" where
  "reserve_order_stock_loop [] st = st"
| "reserve_order_stock_loop (item # rest) st =
     reserve_order_stock_loop rest
       (snd (update_stock (oi_product_id item) (- oi_quantity item) st))"

definition reserve_order_stock :: "order \<Rightarrow> state \<Rightarrow> state" where
  "reserve_order_stock order st = reserve_order_stock_loop (o_items order) st"

text \<open>
  A response is \<open>Inl\<close> of the error of \<^verbatim>\<open>format_error\<close>, or \<open>Inr\<close> of the data
  that \<^verbatim>\<open>format_response\<close> wraps.
\<close>

definition create_order ::
  "string \<Rightarrow> string \<Rightarrow> item_in list \<Rightarrow> string \<Rightarrow> state \<Rightarrow> (error + order) \<times> state" where
  "create_order uid user_id items currency st =
     (case find_user_by_id st user_id of
        None \<Rightarrow> (Inl (format_error ''USER_NOT_FOUND'' ''User does not exist''), st)
      | Some user \<Rightarrow>
          if \<not> u_active user
            then (Inl (format_error ''USER_INACTIVE'' ''User account is inactive''), st)
          else if \<not> validate_currency currency
            then (Inl (format_error ''BAD_CURRENCY'' ''Unsupported currency''), st)
          else
            (let validation = validate_order_items st items in
             if \<not> fst validation
               then (Inl (format_error ''INVALID_ITEMS'' (snd validation)), st)
             else
               (let order = create_order_model uid user_id items currency;
                    (created, st1) = create_order_record order st;
                    st2 = reserve_order_stock created st1
                in (Inr created, st2))))"

fun release_order_stock_loop :: "order_item list \<Rightarrow> state \<Rightarrow> state" where
  "release_order_stock_loop [] st = st"
| "release_order_stock_loop (item # rest) st =
     release_order_stock_loop rest
       (snd (update_stock (oi_product_id item) (oi_quantity item) st))"

definition release_order_stock :: "order \<Rightarrow> state \<Rightarrow> state" where
  "release_order_stock order st = release_order_stock_loop (o_items order) st"

definition cancel_order :: "string \<Rightarrow> string \<Rightarrow> state \<Rightarrow> (error + order) \<times> state" where
  "cancel_order order_id user_id st =
     (case find_order_by_id st order_id of
        None \<Rightarrow> (Inl (format_error ''NOT_FOUND'' ''Order not found''), st)
      | Some order \<Rightarrow>
          if o_user_id order \<noteq> user_id
            then (Inl (format_error ''FORBIDDEN'' ''Not your order''), st)
          else
            (case update_order_status order_id ''cancelled'' st of
               (None, st1) \<Rightarrow>
                 (Inl (format_error ''INVALID_STATE'' ''Cannot cancel in current state''), st1)
             | (Some updated, st1) \<Rightarrow> (Inr updated, release_order_stock order st1)))"

text \<open>
  The quantity an order's items ask of one product: the sum of the quantities of the
  items that name it.
\<close>

definition requested :: "order_item list \<Rightarrow> string \<Rightarrow> int" where
  "requested items product_id =
     sum_list (map oi_quantity (filter (\<lambda>i. oi_product_id i = product_id) items))"

section \<open>utils.py: sanitising\<close>

text \<open>
  \<^verbatim>\<open>str.strip()\<close> removes the ASCII whitespace characters (codes 9 to 13, 28 to 31
  and 32) from both ends.
\<close>

definition is_space :: "char \<Rightarrow> bool" where
  "is_space c =
     (let n = (of_char c :: nat) in (9 \<le> n \<and> n \<le> 13) \<or> (28 \<le> n \<and> n \<le> 31) \<or> n = 32)"

definition strip :: "string \<Rightarrow> string" where
  "strip s = rev (dropWhile is_space (rev (dropWhile is_space s)))"

fun remove_html_tags_loop :: "bool \<Rightarrow> string \<Rightarrow> string" where
  "remove_html_tags_loop in_tag [] = []"
| "remove_html_tags_loop in_tag (c # cs) =
     (if c = CHR ''<'' then remove_html_tags_loop True cs
      else if c = CHR ''>'' then remove_html_tags_loop False cs
      else if \<not> in_tag then c # remove_html_tags_loop in_tag cs
      else remove_html_tags_loop in_tag cs)"

definition remove_html_tags :: "string \<Rightarrow> string" where
  "remove_html_tags v = remove_html_tags_loop False v"

definition sanitize_string :: "string \<Rightarrow> string" where
  "sanitize_string v = remove_html_tags (strip v)"

text \<open>\<^verbatim>\<open>str(n)\<close> of an integer, as an f-string prints it.\<close>

fun str_nat :: "nat \<Rightarrow> string" where
  "str_nat n =
     (if n < 10 then [char_of (48 + n)]
      else str_nat (n div 10) @ [char_of (48 + n mod 10)])"

definition str_int :: "int \<Rightarrow> string" where
  "str_int i = (if i < 0 then ''-'' @ str_nat (nat (- i)) else str_nat (nat i))"

section \<open>models.py: notifications\<close>

definition create_notification_model ::
  "string \<Rightarrow> string \<Rightarrow> string \<Rightarrow> string \<Rightarrow> string \<Rightarrow> notification" where
  "create_notification_model uid user_id channel subject body =
     \<lparr>n_id = generate_id ''ntf'' uid,
      n_user_id = user_id,
      n_channel = channel,
      n_subject = sanitize_string subject,
      n_body = sanitize_string body,
      n_read = False\<rparr>"

section \<open>notification_service.py\<close>

text \<open>\<^verbatim>\<open>list.sort\<close> is stable, as \<open>sort_key\<close> is.\<close>

definition sort_queue :: "state \<Rightarrow> state" where
  "sort_queue st = st\<lparr>queue := sort_key q_priority (queue st)\<rparr>"

definition queue_notification ::
  "string \<Rightarrow> notification \<Rightarrow> int \<Rightarrow> state \<Rightarrow> queue_entry \<times> state" where
  "queue_notification uid notification priority st =
     (let entry = \<lparr>q_id = generate_id ''q'' uid,
                   q_notification = notification,
                   q_priority = priority,
                   q_status = ''queued''\<rparr>
      in (entry, sort_queue (st\<lparr>queue := queue st @ [entry]\<rparr>)))"

section \<open>inventory_service.py: reservation\<close>

record availability =
  av_available :: bool
  av_requested :: int
  av_in_stock :: int

definition check_availability :: "state \<Rightarrow> string \<Rightarrow> int \<Rightarrow> error + availability" where
  "check_availability st product_id quantity =
     (case find_product_by_id st product_id of
        None \<Rightarrow> Inl (format_error ''NOT_FOUND'' ''Product not found'')
      | Some product \<Rightarrow>
          Inr \<lparr>av_available = (p_stock product \<ge> quantity),
               av_requested = quantity,
               av_in_stock = p_stock product\<rparr>)"

text \<open>
  The two identifiers that \<^verbatim>\<open>generate_id\<close> draws for an alert, one for the
  notification and one for the queue entry, are the parameters \<open>uid_n\<close> and \<open>uid_q\<close>.
\<close>

definition trigger_reorder_alert :: "string \<Rightarrow> string \<Rightarrow> product \<Rightarrow> state \<Rightarrow> state" where
  "trigger_reorder_alert uid_n uid_q product st =
     (let notification =
            create_notification_model uid_n ''system'' ''email''
              (''Low stock: '' @ p_name product)
              (''Product '' @ p_sku product @ '' has only '' @ str_int (p_stock product)
                 @ '' units left.'')
      in snd (queue_notification uid_q notification 1 st))"

definition check_reorder_needed :: "string \<Rightarrow> string \<Rightarrow> string \<Rightarrow> state \<Rightarrow> bool \<times> state" where
  "check_reorder_needed uid_n uid_q product_id st =
     (case find_product_by_id st product_id of
        None \<Rightarrow> (False, st)
      | Some product \<Rightarrow>
          if p_stock product \<le> 10 then (True, trigger_reorder_alert uid_n uid_q product st)
          else (False, st))"

text \<open>
  The success response of \<^verbatim>\<open>reserve_stock\<close> carries the reserved quantity and the
  remaining stock. \<^verbatim>\<open>availability.get("data", {}).get("available") is not True\<close>
  holds for an error response and for an availability that is false.
\<close>

definition reserve_stock ::
  "string \<Rightarrow> string \<Rightarrow> string \<Rightarrow> int \<Rightarrow> state \<Rightarrow> (error + int \<times> int) \<times> state" where
  "reserve_stock uid_n uid_q product_id quantity st =
     (let availability = check_availability st product_id quantity in
      if (case availability of Inl e \<Rightarrow> True | Inr a \<Rightarrow> \<not> av_available a)
        then (Inl (format_error ''OUT_OF_STOCK'' ''Insufficient stock''), st)
      else
        (case update_stock product_id (- quantity) st of
           (None, st1) \<Rightarrow> (Inl (format_error ''RESERVE_FAILED'' ''Could not reserve stock''), st1)
         | (Some new_stock, st1) \<Rightarrow>
             (Inr (quantity, new_stock), snd (check_reorder_needed uid_n uid_q product_id st1))))"

section \<open>Validity of an item\<close>

text \<open>
  What \<^verbatim>\<open>validate_order_items\<close> accepts, written out: the quantity is present and
  lies in (0, 10000]; the price is present, lies in [0.01, 999999.99] and, rounded to
  ten decimal places, is a whole number of hundredths; the product id (the empty string
  when the key is absent) names a product of the table.
\<close>

definition item_accepted :: "state \<Rightarrow> item_in \<Rightarrow> bool" where
  "item_accepted st item =
     ((case in_quantity item of None \<Rightarrow> False | Some q \<Rightarrow> 0 < q \<and> q \<le> 10000)
      \<and> (case in_price item of
            None \<Rightarrow> False
          | Some p \<Rightarrow> 1 / 100 \<le> p \<and> p \<le> 99999999 / 100
                      \<and> round_half_even (\<bar>p\<bar> * 10 ^ 10) mod 10 ^ 8 = 0)
      \<and> products_db st (case in_product_id item of None \<Rightarrow> [] | Some pid \<Rightarrow> pid) \<noteq> None)"



section \<open>Scenario states\<close>

text \<open>
  The state of the specification's scenarios: one active user \<open>u1\<close> and one product
  \<open>P\<close> with the given stock; no orders, nothing queued.
\<close>

definition scenario_product :: "int \<Rightarrow> product" where
  "scenario_product s =
     \<lparr>p_id = ''P'', p_name = ''Widget'', p_sku = ''W-1'', p_price = 10, p_stock = s,
      p_active = True\<rparr>"

definition scenario_state :: "int \<Rightarrow> state" where
  "scenario_state s =
     \<lparr>users_db = [''u1'' \<mapsto> \<lparr>u_id = ''u1'', u_active = True\<rparr>],
      products_db = [''P'' \<mapsto> scenario_product s],
      orders_db = Map.empty,
      user_order_index = Map.empty,
      queue = []\<rparr>"

definition scenario_items :: "int \<Rightarrow> item_in list" where
  "scenario_items q =
     [\<lparr>in_product_id = Some ''P'', in_quantity = Some q, in_price = Some 10\<rparr>]"

definition scenario_order :: "string \<Rightarrow> order" where
  "scenario_order status =
     \<lparr>o_id = ''ord_1'', o_user_id = ''u1'',
      o_items = [\<lparr>oi_product_id = ''P'', oi_quantity = 3, oi_price = 10, oi_subtotal = 30\<rparr>],
      o_total = 30, o_currency = ''USD'', o_status = status\<rparr>"

definition scenario_state_with_order :: "int \<Rightarrow> string \<Rightarrow> state" where
  "scenario_state_with_order s status =
     (scenario_state s)\<lparr>orders_db := [''ord_1'' \<mapsto> scenario_order status],
                         user_order_index := [''u1'' \<mapsto> [''ord_1'']]\<rparr>"

section \<open>Stock adjustments\<close>

lemma update_stock_missing:
  "products_db st pid = None \<Longrightarrow> update_stock pid d st = (None, st)"
  by (simp add: update_stock_def find_product_by_id_def)

lemma update_stock_rejected:
  "products_db st pid = Some p \<Longrightarrow> p_stock p + d < 0 \<Longrightarrow> update_stock pid d st = (None, st)"
  by (simp add: update_stock_def find_product_by_id_def)

lemma update_stock_committed:
  "products_db st pid = Some p \<Longrightarrow> 0 \<le> p_stock p + d \<Longrightarrow>
   update_stock pid d st =
     (Some (p_stock p + d),
      st\<lparr>products_db := (products_db st)(pid \<mapsto> p\<lparr>p_stock := p_stock p + d\<rparr>)\<rparr>)"
  by (simp add: update_stock_def find_product_by_id_def Let_def)

lemma stock_of_update_stock_same:
  "stock_of (snd (update_stock pid d st)) pid =
     (case stock_of st pid of
        None \<Rightarrow> None
      | Some s \<Rightarrow> if s + d < 0 then Some s else Some (s + d))"
  by (simp add: update_stock_def find_product_by_id_def stock_of_def Let_def
           split: option.splits)

lemma stock_of_update_stock_other:
  "pid' \<noteq> pid \<Longrightarrow> stock_of (snd (update_stock pid d st)) pid' = stock_of st pid'"
  by (simp add: update_stock_def find_product_by_id_def stock_of_def Let_def
           split: option.splits)

lemma update_stock_keeps_nonneg:
  assumes "\<forall>q s. stock_of st q = Some s \<longrightarrow> 0 \<le> s"
  shows "\<forall>q s. stock_of (snd (update_stock pid d st)) q = Some s \<longrightarrow> 0 \<le> s"
proof (intro allI impI)
  fix q s
  assume h: "stock_of (snd (update_stock pid d st)) q = Some s"
  show "0 \<le> s"
  proof (cases "q = pid")
    case True
    with h assms show ?thesis
      by (auto simp: stock_of_update_stock_same split: option.splits if_splits)
  next
    case False
    with h assms show ?thesis
      by (simp add: stock_of_update_stock_other)
  qed
qed

lemma update_stock_calls_keep_nonneg:
  "(\<forall>q s. stock_of st q = Some s \<longrightarrow> 0 \<le> s) \<Longrightarrow>
   (\<forall>q s. stock_of (update_stock_calls calls st) q = Some s \<longrightarrow> 0 \<le> s)"
proof (induction calls arbitrary: st)
  case Nil
  then show ?case by simp
next
  case (Cons c calls)
  obtain pid d where c: "c = (pid, d)" by (cases c)
  have "\<forall>q s. stock_of (snd (update_stock pid d st)) q = Some s \<longrightarrow> 0 \<le> s"
    using Cons.prems by (rule update_stock_keeps_nonneg)
  then show ?case
    unfolding c update_stock_calls.simps by (rule Cons.IH)
qed

text \<open>
  C1. A product's stock never becomes negative under \<^verbatim>\<open>update_stock\<close>. One call on
  an existing product with stock \<open>s\<close> and change \<open>d\<close>: when \<open>s + d\<close> is negative it
  returns \<open>None\<close> and the whole state, hence the stock, is as before; otherwise it returns
  \<open>s + d\<close> and the table holds \<open>s + d\<close> for that product. A call on a missing product
  returns \<open>None\<close> and changes nothing. Hence, from a table whose stocks are all
  non-negative, every sequence of calls (on any products, with any changes) ends in a
  table whose stocks are all non-negative; since this holds for every sequence, it
  holds after every prefix, that is at every moment.
\<close>

theorem update_stock_never_negative:
  "(products_db st pid = Some p \<and> p_stock p + d < 0 \<longrightarrow>
      update_stock pid d st = (None, st))
   \<and> (products_db st pid = Some p \<and> 0 \<le> p_stock p + d \<longrightarrow>
      fst (update_stock pid d st) = Some (p_stock p + d)
      \<and> stock_of (snd (update_stock pid d st)) pid = Some (p_stock p + d))
   \<and> (products_db st pid = None \<longrightarrow> update_stock pid d st = (None, st))
   \<and> ((\<forall>q s. stock_of st q = Some s \<longrightarrow> 0 \<le> s) \<longrightarrow>
      (\<forall>q s. stock_of (update_stock_calls calls st) q = Some s \<longrightarrow> 0 \<le> s))"
proof (intro conjI impI)
  assume "products_db st pid = Some p \<and> p_stock p + d < 0"
  then show "update_stock pid d st = (None, st)"
    by (simp add: update_stock_rejected)
next
  assume h: "products_db st pid = Some p \<and> 0 \<le> p_stock p + d"
  then show "fst (update_stock pid d st) = Some (p_stock p + d)"
    by (simp add: update_stock_committed)
  from h show "stock_of (snd (update_stock pid d st)) pid = Some (p_stock p + d)"
    by (simp add: update_stock_committed stock_of_def)
next
  assume "products_db st pid = None"
  then show "update_stock pid d st = (None, st)"
    by (rule update_stock_missing)
next
  assume "\<forall>q s. stock_of st q = Some s \<longrightarrow> 0 \<le> s"
  then show "\<forall>q s. stock_of (update_stock_calls calls st) q = Some s \<longrightarrow> 0 \<le> s"
    by (rule update_stock_calls_keep_nonneg)
qed

theorem update_stock_never_negative_witness:
  "update_stock ''P'' (- 3) (scenario_state 2) = (None, scenario_state 2)
   \<and> fst (update_stock ''P'' (- 3) (scenario_state 5)) = Some 2
   \<and> stock_of (snd (update_stock ''P'' (- 3) (scenario_state 5))) ''P'' = Some 2
   \<and> update_stock ''Q'' 1 (scenario_state 5) = (None, scenario_state 5)
   \<and> stock_of (update_stock_calls [(''P'', - 3), (''P'', - 3), (''P'', 4)] (scenario_state 5)) ''P''
       = Some 6
   \<and> \<not> (\<exists>q s. stock_of (update_stock_calls [(''P'', - 3), (''P'', - 3), (''P'', 4)]
                 (scenario_state 5)) q = Some s \<and> s < 0)"
proof -
  have db2: "products_db (scenario_state 2) ''P'' = Some (scenario_product 2)"
    and db5: "products_db (scenario_state 5) ''P'' = Some (scenario_product 5)"
    and dbQ: "products_db (scenario_state 5) ''Q'' = None"
    by (simp_all add: scenario_state_def)
  have s2: "p_stock (scenario_product 2) + (- 3) < 0"
    and s5: "0 \<le> p_stock (scenario_product 5) + (- 3)"
    by (simp_all add: scenario_product_def)
  have inv: "\<forall>q s. stock_of (scenario_state 5) q = Some s \<longrightarrow> 0 \<le> s"
    by (simp add: stock_of_def scenario_state_def scenario_product_def)
  note a = update_stock_never_negative [of "scenario_state 2" "''P''" "scenario_product 2" "- 3" "[]"]
  note b = update_stock_never_negative [of "scenario_state 5" "''P''" "scenario_product 5" "- 3"
      "[(''P'', - 3), (''P'', - 3), (''P'', 4)]"]
  note c = update_stock_never_negative [of "scenario_state 5" "''Q''" "scenario_product 5" 1 "[]"]
  have 1: "update_stock ''P'' (- 3) (scenario_state 2) = (None, scenario_state 2)"
    using a db2 s2 by blast
  have 2: "fst (update_stock ''P'' (- 3) (scenario_state 5)) = Some 2"
    and 3: "stock_of (snd (update_stock ''P'' (- 3) (scenario_state 5))) ''P'' = Some 2"
    using b db5 s5 by (simp_all add: scenario_product_def)
  have 4: "update_stock ''Q'' 1 (scenario_state 5) = (None, scenario_state 5)"
    using c dbQ by blast
  have 5: "stock_of (update_stock_calls [(''P'', - 3), (''P'', - 3), (''P'', 4)] (scenario_state 5)) ''P''
       = Some 6"
    by (simp add: update_stock_def find_product_by_id_def stock_of_def scenario_state_def
        scenario_product_def Let_def)
  have "\<forall>q s. stock_of (update_stock_calls [(''P'', - 3), (''P'', - 3), (''P'', 4)]
                 (scenario_state 5)) q = Some s \<longrightarrow> 0 \<le> s"
    using b inv by blast
  then have 6: "\<not> (\<exists>q s. stock_of (update_stock_calls [(''P'', - 3), (''P'', - 3), (''P'', 4)]
                 (scenario_state 5)) q = Some s \<and> s < 0)"
    by fastforce
  from 1 2 3 4 5 6 show ?thesis by blast
qed

section \<open>Stock classification\<close>

text \<open>
  C4 (as amended). \<^verbatim>\<open>classify_stock_level\<close> reads nothing but its argument, so the
  same stock always gives the same category. It maps a stock by the fixed thresholds:
  at most 0 to \<open>out_of_stock\<close>, else at most 10 to \<open>low\<close>, else at most 50 to
  \<open>medium\<close>, else \<open>high\<close>. The boundary inputs 0, 1, 10, 11, 50, 51 map to
  \<open>out_of_stock\<close>, \<open>low\<close>, \<open>low\<close>, \<open>medium\<close>, \<open>medium\<close>, \<open>high\<close>.
\<close>

theorem classify_stock_level_thresholds:
  "(classify_stock_level stock = ''out_of_stock'') = (stock \<le> 0)
   \<and> (classify_stock_level stock = ''low'') = (0 < stock \<and> stock \<le> 10)
   \<and> (classify_stock_level stock = ''medium'') = (10 < stock \<and> stock \<le> 50)
   \<and> (classify_stock_level stock = ''high'') = (50 < stock)
   \<and> classify_stock_level 0 = ''out_of_stock''
   \<and> classify_stock_level 1 = ''low''
   \<and> classify_stock_level 10 = ''low''
   \<and> classify_stock_level 11 = ''medium''
   \<and> classify_stock_level 50 = ''medium''
   \<and> classify_stock_level 51 = ''high''"
  by (simp add: classify_stock_level_def)

text \<open>
  C4 as stated pairs the inputs 0, 10, 11, 50, 51 with the categories in the order
  \<open>out_of_stock\<close>, \<open>low\<close>, \<open>low\<close>, \<open>medium\<close>, \<open>medium\<close> (a sixth, \<open>high\<close>,
  has no input). The third and the fifth pair fail: 11 is \<open>medium\<close> and 51 is
  \<open>high\<close>.
\<close>

theorem classify_stock_level_boundaries_counterexample:
  "classify_stock_level 11 \<noteq> ''low'' \<and> classify_stock_level 11 = ''medium''
   \<and> classify_stock_level 51 \<noteq> ''medium'' \<and> classify_stock_level 51 = ''high''"
  by (simp add: classify_stock_level_def)

section \<open>Order status\<close>

lemma is_valid_status_transition_table:
  "is_valid_status_transition current target = ((current, target) \<in> spec_transition_table)"
  by (auto simp: is_valid_status_transition_def valid_transitions_def spec_transition_table_def
      split: if_splits)

lemma reachable_status_iff [code]:
  "reachable_status s =
     (s \<in> {''created'', ''pending'', ''processing'', ''shipped'', ''delivered'', ''returned'',
            ''cancelled''})"
proof
  assume "reachable_status s"
  then show "s \<in> {''created'', ''pending'', ''processing'', ''shipped'', ''delivered'',
      ''returned'', ''cancelled''}"
    by (induction rule: reachable_status.induct) (auto simp: spec_transition_table_def)
next
  have c: "reachable_status ''created''" by (rule reachable_status.initial)
  have p: "reachable_status ''pending''"
    by (rule reachable_status.step [OF c]) (simp add: spec_transition_table_def)
  have x: "reachable_status ''cancelled''"
    by (rule reachable_status.step [OF c]) (simp add: spec_transition_table_def)
  have r: "reachable_status ''processing''"
    by (rule reachable_status.step [OF p]) (simp add: spec_transition_table_def)
  have s: "reachable_status ''shipped''"
    by (rule reachable_status.step [OF r]) (simp add: spec_transition_table_def)
  have d: "reachable_status ''delivered''"
    by (rule reachable_status.step [OF s]) (simp add: spec_transition_table_def)
  have t: "reachable_status ''returned''"
    by (rule reachable_status.step [OF d]) (simp add: spec_transition_table_def)
  assume "s \<in> {''created'', ''pending'', ''processing'', ''shipped'', ''delivered'',
      ''returned'', ''cancelled''}"
  with c p x r s d t show "reachable_status s" by auto
qed

lemma update_order_status_missing:
  "orders_db st oid = None \<Longrightarrow> update_order_status oid target st = (None, st)"
  by (simp add: update_order_status_def find_order_by_id_def)

lemma update_order_status_rejected:
  "orders_db st oid = Some ord \<Longrightarrow> \<not> is_valid_status_transition (o_status ord) target \<Longrightarrow>
   update_order_status oid target st = (None, st)"
  by (simp add: update_order_status_def find_order_by_id_def)

lemma update_order_status_accepted:
  "orders_db st oid = Some ord \<Longrightarrow> is_valid_status_transition (o_status ord) target \<Longrightarrow>
   update_order_status oid target st =
     (Some (ord\<lparr>o_status := target\<rparr>),
      st\<lparr>orders_db := (orders_db st)(oid \<mapsto> ord\<lparr>o_status := target\<rparr>)\<rparr>)"
  by (simp add: update_order_status_def find_order_by_id_def Let_def)

lemma update_order_status_keeps_reachable:
  assumes "\<forall>i ord. orders_db st i = Some ord \<longrightarrow> reachable_status (o_status ord)"
  shows "\<forall>i ord. orders_db (snd (update_order_status oid target st)) i = Some ord \<longrightarrow>
           reachable_status (o_status ord)"
proof (cases "orders_db st oid")
  case None
  with assms show ?thesis by (simp add: update_order_status_missing)
next
  case (Some ord)
  show ?thesis
  proof (cases "is_valid_status_transition (o_status ord) target")
    case False
    with Some assms show ?thesis by (simp add: update_order_status_rejected)
  next
    case True
    from Some assms have "reachable_status (o_status ord)" by blast
    with True have "reachable_status target"
      by (auto simp: is_valid_status_transition_table intro: reachable_status.step)
    with Some True assms show ?thesis
      by (auto simp: update_order_status_accepted)
  qed
qed

lemma update_order_status_calls_keep_reachable:
  "(\<forall>i ord. orders_db st i = Some ord \<longrightarrow> reachable_status (o_status ord)) \<Longrightarrow>
   (\<forall>i ord. orders_db (update_order_status_calls calls st) i = Some ord \<longrightarrow>
      reachable_status (o_status ord))"
proof (induction calls arbitrary: st)
  case Nil
  then show ?case by simp
next
  case (Cons c calls)
  obtain oid target where c: "c = (oid, target)" by (cases c)
  have "\<forall>i ord. orders_db (snd (update_order_status oid target st)) i = Some ord \<longrightarrow>
      reachable_status (o_status ord)"
    using Cons.prems by (rule update_order_status_keeps_reachable)
  then show ?case
    unfolding c update_order_status_calls.simps by (rule Cons.IH)
qed

lemma create_order_model_status:
  "o_status (create_order_model uid user_id items currency) = ''created''"
  by (simp add: create_order_model_def Let_def)

lemma scenario_order_lookup:
  "orders_db (scenario_state_with_order n status) ''ord_1'' = Some (scenario_order status)"
  by (simp add: scenario_state_with_order_def)

lemma scenario_orders_reachable:
  "reachable_status status \<Longrightarrow>
   \<forall>i ord. orders_db (scenario_state_with_order n status) i = Some ord \<longrightarrow>
     reachable_status (o_status ord)"
  by (auto simp: scenario_state_with_order_def scenario_order_def split: if_splits)

text \<open>
  C2. The status of an order follows the transition table. The table the source
  consults is the table of the specification; a transition outside it returns \<open>None\<close>
  and leaves the whole state, hence the order and its status, as it was; a transition in
  it stores the order with the new status. An order is built with status \<open>created\<close>.
  Hence, when every stored order has a status that the table reaches from \<open>created\<close>,
  so has every stored order after any sequence of \<^verbatim>\<open>update_order_status\<close> calls (on
  any orders, with any targets). The statuses so reached are exactly \<open>created\<close>,
  \<open>pending\<close>, \<open>processing\<close>, \<open>shipped\<close>, \<open>delivered\<close>, \<open>returned\<close> and
  \<open>cancelled\<close>.
\<close>

theorem order_status_follows_table:
  "(is_valid_status_transition current target = ((current, target) \<in> spec_transition_table))
   \<and> (orders_db st oid = Some ord \<and> (o_status ord, target) \<notin> spec_transition_table \<longrightarrow>
        update_order_status oid target st = (None, st))
   \<and> (orders_db st oid = Some ord \<and> (o_status ord, target) \<in> spec_transition_table \<longrightarrow>
        fst (update_order_status oid target st) = Some (ord\<lparr>o_status := target\<rparr>)
        \<and> orders_db (snd (update_order_status oid target st)) oid
            = Some (ord\<lparr>o_status := target\<rparr>))
   \<and> o_status (create_order_model uid user_id items currency) = ''created''
   \<and> ((\<forall>i ord. orders_db st i = Some ord \<longrightarrow> reachable_status (o_status ord)) \<longrightarrow>
        (\<forall>i ord. orders_db (update_order_status_calls calls st) i = Some ord \<longrightarrow>
           reachable_status (o_status ord)))
   \<and> (reachable_status s =
        (s \<in> {''created'', ''pending'', ''processing'', ''shipped'', ''delivered'', ''returned'',
               ''cancelled''}))"
proof (intro conjI impI)
  show "is_valid_status_transition current target = ((current, target) \<in> spec_transition_table)"
    by (rule is_valid_status_transition_table)
next
  assume "orders_db st oid = Some ord \<and> (o_status ord, target) \<notin> spec_transition_table"
  then show "update_order_status oid target st = (None, st)"
    by (simp add: update_order_status_rejected is_valid_status_transition_table)
next
  assume h: "orders_db st oid = Some ord \<and> (o_status ord, target) \<in> spec_transition_table"
  then show "fst (update_order_status oid target st) = Some (ord\<lparr>o_status := target\<rparr>)"
    by (simp add: update_order_status_accepted is_valid_status_transition_table)
  from h show "orders_db (snd (update_order_status oid target st)) oid
      = Some (ord\<lparr>o_status := target\<rparr>)"
    by (simp add: update_order_status_accepted is_valid_status_transition_table)
next
  show "o_status (create_order_model uid user_id items currency) = ''created''"
    by (rule create_order_model_status)
next
  assume "\<forall>i ord. orders_db st i = Some ord \<longrightarrow> reachable_status (o_status ord)"
  then show "\<forall>i ord. orders_db (update_order_status_calls calls st) i = Some ord \<longrightarrow>
      reachable_status (o_status ord)"
    by (rule update_order_status_calls_keep_reachable)
next
  show "reachable_status s =
        (s \<in> {''created'', ''pending'', ''processing'', ''shipped'', ''delivered'', ''returned'',
               ''cancelled''})"
    by (rule reachable_status_iff)
qed

theorem order_status_follows_table_witness:
  "update_order_status ''ord_1'' ''cancelled'' (scenario_state_with_order 5 ''shipped'')
     = (None, scenario_state_with_order 5 ''shipped'')
   \<and> update_order_status ''ord_1'' ''shipped'' (scenario_state_with_order 5 ''created'')
     = (None, scenario_state_with_order 5 ''created'')
   \<and> fst (update_order_status ''ord_1'' ''pending'' (scenario_state_with_order 5 ''created''))
     = Some (scenario_order ''pending'')
   \<and> orders_db (snd (update_order_status ''ord_1'' ''pending''
         (scenario_state_with_order 5 ''created''))) ''ord_1''
     = Some (scenario_order ''pending'')
   \<and> map_option o_status (orders_db (update_order_status_calls
         [(''ord_1'', ''shipped''), (''ord_1'', ''pending''), (''ord_1'', ''created''),
          (''ord_1'', ''processing''), (''ord_2'', ''pending''), (''ord_1'', ''delivered'')]
         (scenario_state_with_order 5 ''created'')) ''ord_1'') = Some ''processing''
   \<and> reachable_status ''processing''
   \<and> \<not> (\<exists>i ord. orders_db (update_order_status_calls
         [(''ord_1'', ''shipped''), (''ord_1'', ''pending''), (''ord_1'', ''created''),
          (''ord_1'', ''processing''), (''ord_2'', ''pending''), (''ord_1'', ''delivered'')]
         (scenario_state_with_order 5 ''created'')) i = Some ord \<and>
         \<not> reachable_status (o_status ord))"
proof -
  let ?calls = "[(''ord_1'', ''shipped''), (''ord_1'', ''pending''), (''ord_1'', ''created''),
          (''ord_1'', ''processing''), (''ord_2'', ''pending''), (''ord_1'', ''delivered'')]"
  note a = order_status_follows_table
      [of "''shipped''" "''cancelled''" "scenario_state_with_order 5 ''shipped''" "''ord_1''"
          "scenario_order ''shipped''" "''u''" "''u1''" "[]" "''USD''" "[]" "''processing''"]
  note b = order_status_follows_table
      [of "''created''" "''shipped''" "scenario_state_with_order 5 ''created''" "''ord_1''"
          "scenario_order ''created''" "''u''" "''u1''" "[]" "''USD''" ?calls "''processing''"]
  note c = order_status_follows_table
      [of "''created''" "''pending''" "scenario_state_with_order 5 ''created''" "''ord_1''"
          "scenario_order ''created''" "''u''" "''u1''" "[]" "''USD''" ?calls "''processing''"]
  have n1: "(o_status (scenario_order ''shipped''), ''cancelled'') \<notin> spec_transition_table"
    and n2: "(o_status (scenario_order ''created''), ''shipped'') \<notin> spec_transition_table"
    and y3: "(o_status (scenario_order ''created''), ''pending'') \<in> spec_transition_table"
    by (simp_all add: scenario_order_def spec_transition_table_def)
  have 1: "update_order_status ''ord_1'' ''cancelled'' (scenario_state_with_order 5 ''shipped'')
     = (None, scenario_state_with_order 5 ''shipped'')"
    using a n1 scenario_order_lookup by blast
  have 2: "update_order_status ''ord_1'' ''shipped'' (scenario_state_with_order 5 ''created'')
     = (None, scenario_state_with_order 5 ''created'')"
    using b n2 scenario_order_lookup by blast
  have upd: "(scenario_order ''created'')\<lparr>o_status := ''pending''\<rparr> = scenario_order ''pending''"
    by (simp add: scenario_order_def)
  have 3: "fst (update_order_status ''ord_1'' ''pending'' (scenario_state_with_order 5 ''created''))
     = Some (scenario_order ''pending'')"
    and 4: "orders_db (snd (update_order_status ''ord_1'' ''pending''
         (scenario_state_with_order 5 ''created''))) ''ord_1''
     = Some (scenario_order ''pending'')"
    using c y3 scenario_order_lookup [of 5 "''created''"] by (simp_all add: upd)
  have 5: "map_option o_status (orders_db (update_order_status_calls ?calls
         (scenario_state_with_order 5 ''created'')) ''ord_1'') = Some ''processing''"
    by (simp add: update_order_status_def find_order_by_id_def is_valid_status_transition_def
        valid_transitions_def scenario_state_with_order_def scenario_order_def Let_def)
  have 6: "reachable_status ''processing''"
    using b by simp
  have init: "reachable_status ''created''" by (rule reachable_status.initial)
  have "\<forall>i ord. orders_db (update_order_status_calls ?calls
         (scenario_state_with_order 5 ''created'')) i = Some ord \<longrightarrow>
         reachable_status (o_status ord)"
    using b scenario_orders_reachable [OF init, of 5] by blast
  then have 7: "\<not> (\<exists>i ord. orders_db (update_order_status_calls ?calls
         (scenario_state_with_order 5 ''created'')) i = Some ord \<and>
         \<not> reachable_status (o_status ord))"
    by blast
  from 1 2 3 4 5 6 7 show ?thesis by blast
qed

section \<open>Frame of a status update\<close>

lemma update_order_status_result:
  "orders_db st oid = Some ord \<Longrightarrow>
   update_order_status oid target st =
     (if is_valid_status_transition (o_status ord) target
      then (Some (ord\<lparr>o_status := target\<rparr>),
            st\<lparr>orders_db := (orders_db st)(oid \<mapsto> ord\<lparr>o_status := target\<rparr>)\<rparr>)
      else (None, st))"
  by (simp add: update_order_status_accepted update_order_status_rejected)

text \<open>
  C10. \<^verbatim>\<open>update_order_status\<close> on an existing order changes nothing but the
  order's status. After the call, whether it succeeds or is rejected, the order stored
  under the id is the order as it was with at most its status replaced (by the target
  when the transition is allowed, by the old status otherwise), so its id, user id,
  items, total and currency are as before; every other order, the users, the products,
  the user index and the queue are as before. The call returns the updated order when
  the transition is allowed and \<open>None\<close> otherwise.
\<close>

theorem update_order_status_frame:
  assumes "orders_db st oid = Some ord"
  shows "orders_db (snd (update_order_status oid target st)) oid
           = Some (ord\<lparr>o_status :=
                (if is_valid_status_transition (o_status ord) target then target
                 else o_status ord)\<rparr>)
         \<and> map_option o_id (orders_db (snd (update_order_status oid target st)) oid)
             = Some (o_id ord)
         \<and> map_option o_user_id (orders_db (snd (update_order_status oid target st)) oid)
             = Some (o_user_id ord)
         \<and> map_option o_items (orders_db (snd (update_order_status oid target st)) oid)
             = Some (o_items ord)
         \<and> map_option o_total (orders_db (snd (update_order_status oid target st)) oid)
             = Some (o_total ord)
         \<and> map_option o_currency (orders_db (snd (update_order_status oid target st)) oid)
             = Some (o_currency ord)
         \<and> fst (update_order_status oid target st)
             = (if is_valid_status_transition (o_status ord) target
                then Some (ord\<lparr>o_status := target\<rparr>) else None)
         \<and> (\<forall>other. other \<noteq> oid \<longrightarrow>
               orders_db (snd (update_order_status oid target st)) other = orders_db st other)
         \<and> users_db (snd (update_order_status oid target st)) = users_db st
         \<and> products_db (snd (update_order_status oid target st)) = products_db st
         \<and> user_order_index (snd (update_order_status oid target st)) = user_order_index st
         \<and> queue (snd (update_order_status oid target st)) = queue st"
proof (cases "is_valid_status_transition (o_status ord) target")
  case True
  with assms show ?thesis by (simp add: update_order_status_result)
next
  case False
  with assms show ?thesis by (simp add: update_order_status_result)
qed

theorem update_order_status_frame_witness:
  "orders_db (snd (update_order_status ''ord_1'' ''pending''
       (scenario_state_with_order 5 ''created''))) ''ord_1'' = Some (scenario_order ''pending'')
   \<and> map_option o_total (orders_db (snd (update_order_status ''ord_1'' ''pending''
       (scenario_state_with_order 5 ''created''))) ''ord_1'') = Some 30
   \<and> orders_db (snd (update_order_status ''ord_1'' ''delivered''
       (scenario_state_with_order 5 ''created''))) ''ord_1'' = Some (scenario_order ''created'')
   \<and> fst (update_order_status ''ord_1'' ''delivered'' (scenario_state_with_order 5 ''created''))
       = None
   \<and> products_db (snd (update_order_status ''ord_1'' ''pending''
       (scenario_state_with_order 5 ''created''))) = products_db (scenario_state 5)"
proof -
  have v: "is_valid_status_transition (o_status (scenario_order ''created'')) ''pending''"
    and n: "\<not> is_valid_status_transition (o_status (scenario_order ''created'')) ''delivered''"
    by (simp_all add: is_valid_status_transition_def valid_transitions_def scenario_order_def)
  have e1: "(scenario_order ''created'')\<lparr>o_status := ''pending''\<rparr> = scenario_order ''pending''"
    and e2: "(scenario_order ''created'')\<lparr>o_status := o_status (scenario_order ''created'')\<rparr>
       = scenario_order ''created''"
    and e3: "o_total (scenario_order ''created'') = 30"
    and e4: "products_db (scenario_state_with_order 5 ''created'') = products_db (scenario_state 5)"
    by (simp_all add: scenario_order_def scenario_state_with_order_def)
  note a = update_order_status_frame [OF scenario_order_lookup [of 5 "''created''"], of "''pending''"]
  note b = update_order_status_frame [OF scenario_order_lookup [of 5 "''created''"], of "''delivered''"]
  have 1: "orders_db (snd (update_order_status ''ord_1'' ''pending''
       (scenario_state_with_order 5 ''created''))) ''ord_1'' = Some (scenario_order ''pending'')"
    using a [THEN conjunct1] by (simp only: v e1 if_True)
  have 2: "map_option o_total (orders_db (snd (update_order_status ''ord_1'' ''pending''
       (scenario_state_with_order 5 ''created''))) ''ord_1'') = Some 30"
    using a [THEN conjunct2, THEN conjunct2, THEN conjunct2, THEN conjunct2, THEN conjunct1]
    by (simp only: e3)
  have 3: "orders_db (snd (update_order_status ''ord_1'' ''delivered''
       (scenario_state_with_order 5 ''created''))) ''ord_1'' = Some (scenario_order ''created'')"
    using b [THEN conjunct1] by (simp only: n e2 if_False)
  have 4: "fst (update_order_status ''ord_1'' ''delivered''
       (scenario_state_with_order 5 ''created'')) = None"
    using b [THEN conjunct2, THEN conjunct2, THEN conjunct2, THEN conjunct2, THEN conjunct2,
        THEN conjunct2, THEN conjunct1]
    by (simp only: n if_False)
  have 5: "products_db (snd (update_order_status ''ord_1'' ''pending''
       (scenario_state_with_order 5 ''created''))) = products_db (scenario_state 5)"
    using a [THEN conjunct2, THEN conjunct2, THEN conjunct2, THEN conjunct2, THEN conjunct2,
        THEN conjunct2, THEN conjunct2, THEN conjunct2, THEN conjunct2, THEN conjunct1]
    by (simp only: e4)
  from 1 2 3 4 5 show ?thesis by (intro conjI)
qed

section \<open>Reserving and releasing the stock of an order\<close>

lemma update_stock_other_tables:
  "users_db (snd (update_stock pid d st)) = users_db st"
  "orders_db (snd (update_stock pid d st)) = orders_db st"
  "user_order_index (snd (update_stock pid d st)) = user_order_index st"
  "queue (snd (update_stock pid d st)) = queue st"
  by (simp_all add: update_stock_def find_product_by_id_def Let_def split: option.splits)

lemma requested_Cons:
  "requested (i # items) pid =
     (if oi_product_id i = pid then oi_quantity i else 0) + requested items pid"
  by (simp add: requested_def)

lemma requested_nonneg:
  "\<forall>i\<in>set items. 0 \<le> oi_quantity i \<Longrightarrow> 0 \<le> requested items pid"
  by (induction items) (simp_all add: requested_def)

lemma release_loop_other_tables:
  "users_db (release_order_stock_loop items st) = users_db st
   \<and> orders_db (release_order_stock_loop items st) = orders_db st
   \<and> user_order_index (release_order_stock_loop items st) = user_order_index st
   \<and> queue (release_order_stock_loop items st) = queue st"
  by (induction items arbitrary: st) (simp_all add: update_stock_other_tables)

lemma reserve_loop_other_tables:
  "users_db (reserve_order_stock_loop items st) = users_db st
   \<and> orders_db (reserve_order_stock_loop items st) = orders_db st
   \<and> user_order_index (reserve_order_stock_loop items st) = user_order_index st
   \<and> queue (reserve_order_stock_loop items st) = queue st"
  by (induction items arbitrary: st) (simp_all add: update_stock_other_tables)

lemma release_loop_stock:
  "\<forall>i\<in>set items. 0 \<le> oi_quantity i \<Longrightarrow>
   \<forall>q s. stock_of st q = Some s \<longrightarrow> 0 \<le> s \<Longrightarrow>
   stock_of (release_order_stock_loop items st) pid
     = map_option (\<lambda>s. s + requested items pid) (stock_of st pid)"
proof (induction items arbitrary: st)
  case Nil
  then show ?case by (simp add: requested_def option.map_ident)
next
  case (Cons i items)
  let ?st1 = "snd (update_stock (oi_product_id i) (oi_quantity i) st)"
  have q: "0 \<le> oi_quantity i" and qs: "\<forall>i\<in>set items. 0 \<le> oi_quantity i"
    using Cons.prems(1) by simp_all
  have inv1: "\<forall>q s. stock_of ?st1 q = Some s \<longrightarrow> 0 \<le> s"
    using Cons.prems(2) by (rule update_stock_keeps_nonneg)
  have ih: "stock_of (release_order_stock_loop items ?st1) pid
      = map_option (\<lambda>s. s + requested items pid) (stock_of ?st1 pid)"
    using qs inv1 by (rule Cons.IH)
  have step: "stock_of ?st1 pid
      = map_option (\<lambda>s. s + (if oi_product_id i = pid then oi_quantity i else 0)) (stock_of st pid)"
  proof (cases "oi_product_id i = pid")
    case True
    show ?thesis
    proof (cases "stock_of st pid")
      case None
      with True show ?thesis by (simp add: stock_of_update_stock_same)
    next
      case (Some s)
      with Cons.prems(2) have "0 \<le> s" by blast
      with q Some True show ?thesis by (simp add: stock_of_update_stock_same)
    qed
  next
    case False
    then show ?thesis
      by (simp add: stock_of_update_stock_other option.map_ident)
  qed
  show ?case
    by (simp add: ih step requested_Cons option.map_comp comp_def add.assoc)
qed

lemma reserve_loop_stock:
  "\<forall>i\<in>set items. 0 \<le> oi_quantity i \<Longrightarrow>
   \<forall>q s. stock_of st q = Some s \<longrightarrow> requested items q \<le> s \<Longrightarrow>
   stock_of (reserve_order_stock_loop items st) pid
     = map_option (\<lambda>s. s - requested items pid) (stock_of st pid)"
proof (induction items arbitrary: st)
  case Nil
  then show ?case by (simp add: requested_def option.map_ident)
next
  case (Cons i items)
  let ?st1 = "snd (update_stock (oi_product_id i) (- oi_quantity i) st)"
  have q: "0 \<le> oi_quantity i" and qs: "\<forall>i\<in>set items. 0 \<le> oi_quantity i"
    using Cons.prems(1) by simp_all
  have step: "stock_of ?st1 p
      = map_option (\<lambda>s. s - (if oi_product_id i = p then oi_quantity i else 0)) (stock_of st p)"
    for p
  proof (cases "oi_product_id i = p")
    case True
    show ?thesis
    proof (cases "stock_of st p")
      case None
      with True show ?thesis by (simp add: stock_of_update_stock_same)
    next
      case (Some s)
      with Cons.prems(2) have "requested (i # items) p \<le> s" by blast
      moreover have "0 \<le> requested items p" using qs by (rule requested_nonneg)
      ultimately have "0 \<le> s - oi_quantity i"
        using True by (simp add: requested_Cons)
      with Some True show ?thesis by (simp add: stock_of_update_stock_same)
    qed
  next
    case False
    then show ?thesis
      by (simp add: stock_of_update_stock_other option.map_ident)
  qed
  have inv1: "\<forall>p s. stock_of ?st1 p = Some s \<longrightarrow> requested items p \<le> s"
  proof (intro allI impI)
    fix p s
    assume "stock_of ?st1 p = Some s"
    then obtain s0 where s0: "stock_of st p = Some s0"
      and s: "s = s0 - (if oi_product_id i = p then oi_quantity i else 0)"
      by (auto simp: step)
    from s0 Cons.prems(2) have "requested (i # items) p \<le> s0" by blast
    with s show "requested items p \<le> s" by (simp add: requested_Cons split: if_splits)
  qed
  have ih: "stock_of (reserve_order_stock_loop items ?st1) pid
      = map_option (\<lambda>s. s - requested items pid) (stock_of ?st1 pid)"
    using qs inv1 by (rule Cons.IH)
  show ?case
    by (simp add: ih step requested_Cons option.map_comp comp_def diff_diff_eq)
qed

section \<open>Cancelling an order\<close>

lemma format_error_short:
  "length message \<le> 500 \<Longrightarrow> format_error code message = (code, message)"
  by (simp add: format_error_def truncate_string_def)

lemma cancellable_statuses:
  "is_valid_status_transition s ''cancelled'' = (s \<in> {''created'', ''pending'', ''processing''})"
  by (auto simp: is_valid_status_transition_def valid_transitions_def split: if_splits)

lemma cancel_order_not_found:
  "orders_db st oid = None \<Longrightarrow>
   cancel_order oid uid st = (Inl (''NOT_FOUND'', ''Order not found''), st)"
  by (simp add: cancel_order_def find_order_by_id_def format_error_short)

lemma cancel_order_forbidden:
  "orders_db st oid = Some ord \<Longrightarrow> o_user_id ord \<noteq> uid \<Longrightarrow>
   cancel_order oid uid st = (Inl (''FORBIDDEN'', ''Not your order''), st)"
  by (simp add: cancel_order_def find_order_by_id_def format_error_short)

lemma cancel_order_invalid_state:
  "orders_db st oid = Some ord \<Longrightarrow> o_user_id ord = uid \<Longrightarrow>
   \<not> is_valid_status_transition (o_status ord) ''cancelled'' \<Longrightarrow>
   cancel_order oid uid st = (Inl (''INVALID_STATE'', ''Cannot cancel in current state''), st)"
  by (simp add: cancel_order_def find_order_by_id_def format_error_short
      update_order_status_rejected)

lemma cancel_order_success:
  "orders_db st oid = Some ord \<Longrightarrow> o_user_id ord = uid \<Longrightarrow>
   is_valid_status_transition (o_status ord) ''cancelled'' \<Longrightarrow>
   cancel_order oid uid st =
     (Inr (ord\<lparr>o_status := ''cancelled''\<rparr>),
      release_order_stock_loop (o_items ord)
        (st\<lparr>orders_db := (orders_db st)(oid \<mapsto> ord\<lparr>o_status := ''cancelled''\<rparr>)\<rparr>))"
  by (simp add: cancel_order_def find_order_by_id_def update_order_status_accepted
      release_order_stock_def)

lemma stock_of_orders_db_update [simp]:
  "stock_of (st\<lparr>orders_db := m\<rparr>) = stock_of st"
  by (simp add: stock_of_def fun_eq_iff)

text \<open>
  C7. \<^verbatim>\<open>cancel_order\<close> fails with \<open>NOT_FOUND\<close> when no order has the id, with
  \<open>FORBIDDEN\<close> when the order belongs to another user, and with \<open>INVALID_STATE\<close> when
  the order's status does not allow cancellation, which is every status but
  \<open>created\<close>, \<open>pending\<close> and \<open>processing\<close> (so \<open>shipped\<close> does not). In each
  failure the state is returned as it was, so no stock changes. Otherwise the call
  succeeds with the order at status \<open>cancelled\<close>, and the stock of every product is
  its old stock plus the quantities of the order's items that name it. The success
  case is stated for states of the data model: quantities of stored items and stocks
  are not negative.
\<close>

theorem cancel_order_outcomes:
  "(orders_db st oid = None \<longrightarrow>
      cancel_order oid uid st = (Inl (''NOT_FOUND'', ''Order not found''), st))
   \<and> (orders_db st oid = Some ord \<and> o_user_id ord \<noteq> uid \<longrightarrow>
      cancel_order oid uid st = (Inl (''FORBIDDEN'', ''Not your order''), st))
   \<and> (orders_db st oid = Some ord \<and> o_user_id ord = uid
        \<and> o_status ord \<notin> {''created'', ''pending'', ''processing''} \<longrightarrow>
      cancel_order oid uid st
        = (Inl (''INVALID_STATE'', ''Cannot cancel in current state''), st))
   \<and> (orders_db st oid = Some ord \<and> o_user_id ord = uid
        \<and> o_status ord \<in> {''created'', ''pending'', ''processing''}
        \<and> (\<forall>i\<in>set (o_items ord). 0 \<le> oi_quantity i)
        \<and> (\<forall>q s. stock_of st q = Some s \<longrightarrow> 0 \<le> s) \<longrightarrow>
      fst (cancel_order oid uid st) = Inr (ord\<lparr>o_status := ''cancelled''\<rparr>)
      \<and> orders_db (snd (cancel_order oid uid st)) oid = Some (ord\<lparr>o_status := ''cancelled''\<rparr>)
      \<and> (\<forall>pid. stock_of (snd (cancel_order oid uid st)) pid
             = map_option (\<lambda>s. s + requested (o_items ord) pid) (stock_of st pid)))"
proof (intro conjI impI allI)
  assume "orders_db st oid = None"
  then show "cancel_order oid uid st = (Inl (''NOT_FOUND'', ''Order not found''), st)"
    by (rule cancel_order_not_found)
next
  assume "orders_db st oid = Some ord \<and> o_user_id ord \<noteq> uid"
  then show "cancel_order oid uid st = (Inl (''FORBIDDEN'', ''Not your order''), st)"
    by (simp add: cancel_order_forbidden)
next
  assume "orders_db st oid = Some ord \<and> o_user_id ord = uid
        \<and> o_status ord \<notin> {''created'', ''pending'', ''processing''}"
  then show "cancel_order oid uid st
        = (Inl (''INVALID_STATE'', ''Cannot cancel in current state''), st)"
    by (simp add: cancel_order_invalid_state cancellable_statuses)
next
  assume h: "orders_db st oid = Some ord \<and> o_user_id ord = uid
        \<and> o_status ord \<in> {''created'', ''pending'', ''processing''}
        \<and> (\<forall>i\<in>set (o_items ord). 0 \<le> oi_quantity i)
        \<and> (\<forall>q s. stock_of st q = Some s \<longrightarrow> 0 \<le> s)"
  let ?st1 = "st\<lparr>orders_db := (orders_db st)(oid \<mapsto> ord\<lparr>o_status := ''cancelled''\<rparr>)\<rparr>"
  from h have v: "is_valid_status_transition (o_status ord) ''cancelled''"
    by (simp add: cancellable_statuses)
  from h v have c: "cancel_order oid uid st =
     (Inr (ord\<lparr>o_status := ''cancelled''\<rparr>), release_order_stock_loop (o_items ord) ?st1)"
    by (simp add: cancel_order_success)
  show "fst (cancel_order oid uid st) = Inr (ord\<lparr>o_status := ''cancelled''\<rparr>)"
    by (simp add: c)
  show "orders_db (snd (cancel_order oid uid st)) oid = Some (ord\<lparr>o_status := ''cancelled''\<rparr>)"
    by (simp add: c release_loop_other_tables)
  fix pid
  from h have qs: "\<forall>i\<in>set (o_items ord). 0 \<le> oi_quantity i"
    and inv: "\<forall>q s. stock_of ?st1 q = Some s \<longrightarrow> 0 \<le> s"
    by simp_all
  have "stock_of (release_order_stock_loop (o_items ord) ?st1) pid
      = map_option (\<lambda>s. s + requested (o_items ord) pid) (stock_of ?st1 pid)"
    using qs inv by (rule release_loop_stock)
  then show "stock_of (snd (cancel_order oid uid st)) pid
             = map_option (\<lambda>s. s + requested (o_items ord) pid) (stock_of st pid)"
    by (simp add: c)
qed


theorem cancel_order_outcomes_witness:
  "cancel_order ''ord_9'' ''u1'' (scenario_state_with_order 2 ''shipped'')
     = (Inl (''NOT_FOUND'', ''Order not found''), scenario_state_with_order 2 ''shipped'')
   \<and> cancel_order ''ord_1'' ''u2'' (scenario_state_with_order 2 ''shipped'')
     = (Inl (''FORBIDDEN'', ''Not your order''), scenario_state_with_order 2 ''shipped'')
   \<and> cancel_order ''ord_1'' ''u1'' (scenario_state_with_order 2 ''shipped'')
     = (Inl (''INVALID_STATE'', ''Cannot cancel in current state''),
        scenario_state_with_order 2 ''shipped'')
   \<and> stock_of (snd (cancel_order ''ord_1'' ''u1'' (scenario_state_with_order 2 ''shipped''))) ''P''
     = Some 2
   \<and> fst (cancel_order ''ord_1'' ''u1'' (scenario_state_with_order 2 ''created''))
     = Inr (scenario_order ''cancelled'')
   \<and> stock_of (snd (cancel_order ''ord_1'' ''u1'' (scenario_state_with_order 2 ''created''))) ''P''
     = Some 5"
proof -
  let ?S = "scenario_state_with_order 2 ''shipped''"
  let ?C = "scenario_state_with_order 2 ''created''"
  note nf = cancel_order_outcomes
      [where st = ?S and oid = "''ord_9''" and uid = "''u1''" and ord = "scenario_order ''shipped''"]
  note fb = cancel_order_outcomes
      [where st = ?S and oid = "''ord_1''" and uid = "''u2''" and ord = "scenario_order ''shipped''"]
  note iv = cancel_order_outcomes
      [where st = ?S and oid = "''ord_1''" and uid = "''u1''" and ord = "scenario_order ''shipped''"]
  note ok = cancel_order_outcomes
      [where st = ?C and oid = "''ord_1''" and uid = "''u1''" and ord = "scenario_order ''created''"]
  have missing: "orders_db ?S ''ord_9'' = None"
    by (simp add: scenario_state_with_order_def)
  have owner: "o_user_id (scenario_order ''shipped'') \<noteq> ''u2''"
    "o_user_id (scenario_order ''shipped'') = ''u1''"
    "o_user_id (scenario_order ''created'') = ''u1''"
    by (simp_all add: scenario_order_def)
  have status: "o_status (scenario_order ''shipped'') \<notin> {''created'', ''pending'', ''processing''}"
    "o_status (scenario_order ''created'') \<in> {''created'', ''pending'', ''processing''}"
    by (simp_all add: scenario_order_def)
  have qty: "\<forall>i\<in>set (o_items (scenario_order ''created'')). 0 \<le> oi_quantity i"
    by (simp add: scenario_order_def)
  have inv: "\<forall>q s. stock_of ?C q = Some s \<longrightarrow> 0 \<le> s"
    by (simp add: stock_of_def scenario_state_with_order_def scenario_state_def
        scenario_product_def)
  have stock: "stock_of ?S ''P'' = Some 2" "stock_of ?C ''P'' = Some 2"
    by (simp_all add: stock_of_def scenario_state_with_order_def scenario_state_def
        scenario_product_def)
  have req: "requested (o_items (scenario_order ''created'')) ''P'' = 3"
    by (simp add: requested_def scenario_order_def)
  have upd: "(scenario_order ''created'')\<lparr>o_status := ''cancelled''\<rparr> = scenario_order ''cancelled''"
    by (simp add: scenario_order_def)
  have 1: "cancel_order ''ord_9'' ''u1'' ?S = (Inl (''NOT_FOUND'', ''Order not found''), ?S)"
    using nf missing by blast
  have 2: "cancel_order ''ord_1'' ''u2'' ?S = (Inl (''FORBIDDEN'', ''Not your order''), ?S)"
    using fb scenario_order_lookup [of 2 "''shipped''"] owner(1) by blast
  have 3: "cancel_order ''ord_1'' ''u1'' ?S
     = (Inl (''INVALID_STATE'', ''Cannot cancel in current state''), ?S)"
    using iv scenario_order_lookup [of 2 "''shipped''"] owner(2) status(1) by blast
  have 4: "stock_of (snd (cancel_order ''ord_1'' ''u1'' ?S)) ''P'' = Some 2"
    by (simp add: 3 stock)
  have succ: "fst (cancel_order ''ord_1'' ''u1'' ?C)
        = Inr ((scenario_order ''created'')\<lparr>o_status := ''cancelled''\<rparr>)
      \<and> orders_db (snd (cancel_order ''ord_1'' ''u1'' ?C)) ''ord_1''
        = Some ((scenario_order ''created'')\<lparr>o_status := ''cancelled''\<rparr>)
      \<and> (\<forall>pid. stock_of (snd (cancel_order ''ord_1'' ''u1'' ?C)) pid
             = map_option (\<lambda>s. s + requested (o_items (scenario_order ''created'')) pid)
                 (stock_of ?C pid))"
    using ok scenario_order_lookup [of 2 "''created''"] owner(3) status(2) qty inv by blast
  have 5: "fst (cancel_order ''ord_1'' ''u1'' ?C) = Inr (scenario_order ''cancelled'')"
    using succ by (simp only: upd)
  from succ have "stock_of (snd (cancel_order ''ord_1'' ''u1'' ?C)) ''P''
      = map_option (\<lambda>s. s + requested (o_items (scenario_order ''created'')) ''P'')
          (stock_of ?C ''P'')"
    by blast
  then have 6: "stock_of (snd (cancel_order ''ord_1'' ''u1'' ?C)) ''P'' = Some 5"
    by (simp add: stock req)
  from 1 2 3 4 5 6 show ?thesis by (intro conjI)
qed

section \<open>Validation of order items\<close>

lemma rstrip_zeros_snoc:
  "rstrip_zeros (ds @ [d]) = (if d = 0 then rstrip_zeros ds else ds @ [d])"
  by (simp add: rstrip_zeros_def)

lemma length_frac_digits: "length (frac_digits k n) = k"
  by (induction k arbitrary: n) simp_all

lemma length_rstrip_zeros_le: "length (rstrip_zeros ds) \<le> length ds"
  by (simp add: rstrip_zeros_def length_dropWhile_le order_trans [OF length_dropWhile_le])

lemma rstrip_frac_digits:
  "m \<le> k \<Longrightarrow>
   (length (rstrip_zeros (frac_digits k n)) \<le> m) = (n mod 10 ^ (k - m) = 0)"
proof (induction k arbitrary: n)
  case 0
  then show ?case by (simp add: rstrip_zeros_def)
next
  case (Suc k)
  show ?case
  proof (cases "m = Suc k")
    case True
    have "length (rstrip_zeros (frac_digits (Suc k) n)) \<le> length (frac_digits (Suc k) n)"
      by (rule length_rstrip_zeros_le)
    then have "length (rstrip_zeros (frac_digits (Suc k) n)) \<le> Suc k"
      by (simp only: length_frac_digits)
    with True show ?thesis by simp
  next
    case False
    with Suc.prems have mk: "m \<le> k" by simp
    then have e: "Suc k - m = Suc (k - m)" by simp
    show ?thesis
    proof (cases "n mod 10 = 0")
      case True
      then obtain q where q: "n = 10 * q" by (auto simp: mod_eq_0_iff_dvd)
      have "(10 * q) mod (10 * 10 ^ (k - m)) = 10 * (q mod 10 ^ (k - m))"
        by (rule mult_mod_right [symmetric])
      then have "((10 * q) mod 10 ^ Suc (k - m) = 0) = (q mod 10 ^ (k - m) = 0)"
        by (simp only: power_Suc) simp
      with mk True q Suc.IH [OF mk, of q] show ?thesis
        by (simp add: rstrip_zeros_snoc e)
    next
      case False
      have "n mod 10 ^ Suc (k - m) \<noteq> 0"
      proof
        assume "n mod 10 ^ Suc (k - m) = 0"
        then have "10 ^ Suc (k - m) dvd n" by (simp only: mod_eq_0_iff_dvd)
        moreover have "(10::int) dvd 10 ^ Suc (k - m)" by simp
        ultimately have "10 dvd n" by (rule dvd_trans [rotated])
        with False show False by (simp add: mod_eq_0_iff_dvd)
      qed
      with False mk show ?thesis
        by (simp add: rstrip_zeros_snoc e length_frac_digits)
    qed
  qed
qed

lemma validate_decimal_places_2:
  "validate_decimal_places v 2 = (round_half_even (\<bar>v\<bar> * 10 ^ 10) mod 10 ^ 8 = 0)"
proof -
  have "(10::int) ^ 8 dvd 10 ^ 10" by (simp add: le_imp_power_dvd)
  then have "round_half_even (\<bar>v\<bar> * 10 ^ 10) mod 10 ^ 10 mod 10 ^ 8
      = round_half_even (\<bar>v\<bar> * 10 ^ 10) mod 10 ^ 8"
    by (rule mod_mod_cancel)
  moreover have "(length (rstrip_zeros (frac_digits 10 n)) \<le> 2) = (n mod 10 ^ 8 = 0)" for n
    using rstrip_frac_digits [of 2 10 n] by simp
  ultimately show ?thesis
    by (simp add: validate_decimal_places_def Let_def)
qed


lemma item_accepted_code:
  "item_accepted st item =
     (validate_quantity (dict_get (in_quantity item) 0)
      \<and> validate_amount (dict_get (in_price item) 0) amount_min_val amount_max_val
      \<and> check_product_exists st (dict_get (in_product_id item) []))"
  by (auto simp: item_accepted_def validate_quantity_def validate_amount_def dict_get_def
      amount_min_val_def amount_max_val_def check_product_exists_def find_product_by_id_def
      validate_decimal_places_2 split: option.splits)

lemma validate_order_items_loop_accepts:
  "fst (validate_order_items_loop st items) = (\<forall>i\<in>set items. item_accepted st i)"
  by (induction items) (simp_all add: item_accepted_code)

lemma validate_order_items_accepts:
  "fst (validate_order_items st items) = (items \<noteq> [] \<and> (\<forall>i\<in>set items. item_accepted st i))"
  by (simp add: validate_order_items_def validate_order_items_loop_accepts)


lemma create_order_accepted:
  "users_db st user_id = Some u \<Longrightarrow> u_active u \<Longrightarrow> validate_currency currency \<Longrightarrow>
   fst (validate_order_items st items) \<Longrightarrow>
   create_order uid user_id items currency st =
     (Inr (create_order_model uid user_id items currency),
      reserve_order_stock_loop (o_items (create_order_model uid user_id items currency))
        (index_order_by_user (create_order_model uid user_id items currency)
          (st\<lparr>orders_db := (orders_db st)
                 (o_id (create_order_model uid user_id items currency)
                    \<mapsto> create_order_model uid user_id items currency)\<rparr>)))"
  by (simp add: create_order_def find_user_by_id_def Let_def create_order_record_def
      reserve_order_stock_def)

lemma stock_of_index_order_by_user [simp]:
  "stock_of (index_order_by_user ord st) = stock_of st"
  by (simp add: stock_of_def index_order_by_user_def Let_def fun_eq_iff)

lemma orders_db_index_order_by_user [simp]:
  "orders_db (index_order_by_user ord st) = orders_db st"
  by (simp add: index_order_by_user_def Let_def)

lemma queue_index_order_by_user [simp]:
  "queue (index_order_by_user ord st) = queue st"
  by (simp add: index_order_by_user_def Let_def)

lemma create_order_model_items:
  "o_items (create_order_model uid user_id items currency) = map create_order_item items"
  by (simp add: create_order_model_def Let_def)


lemma accepted_item_fields:
  "item_accepted st i \<Longrightarrow>
   in_quantity i = Some (oi_quantity (create_order_item i))
   \<and> in_price i = Some (oi_price (create_order_item i))
   \<and> 0 < oi_quantity (create_order_item i)"
  by (auto simp: item_accepted_def create_order_item_def dict_get_def Let_def
      split: option.splits)




section \<open>Creating an order\<close>

lemma reserve_stock_of_created:
  assumes "users_db st user_id = Some u" and "u_active u" and "validate_currency currency"
    and "fst (validate_order_items st items)"
    and "\<forall>q s. stock_of st q = Some s \<longrightarrow> requested (map create_order_item items) q \<le> s"
  shows "stock_of (snd (create_order uid user_id items currency st)) pid
     = map_option (\<lambda>s. s - requested (map create_order_item items) pid) (stock_of st pid)"
proof -
  let ?ord = "create_order_model uid user_id items currency"
  let ?st1 = "index_order_by_user ?ord (st\<lparr>orders_db := (orders_db st)(o_id ?ord \<mapsto> ?ord)\<rparr>)"
  have acc: "\<forall>i\<in>set items. item_accepted st i"
    using assms(4) by (simp add: validate_order_items_accepts)
  have qs: "\<forall>i\<in>set (map create_order_item items). 0 \<le> oi_quantity i"
    using acc accepted_item_fields by fastforce
  have inv: "\<forall>q s. stock_of ?st1 q = Some s \<longrightarrow> requested (map create_order_item items) q \<le> s"
    using assms(5) by simp
  have "stock_of (reserve_order_stock_loop (map create_order_item items) ?st1) pid
      = map_option (\<lambda>s. s - requested (map create_order_item items) pid) (stock_of ?st1 pid)"
    using qs inv by (rule reserve_loop_stock)
  then show ?thesis
    by (simp add: create_order_accepted [OF assms(1-4)] create_order_model_items)
qed





section \<open>Orders that exceed the stock\<close>

text \<open>
  C6. With stock 2 and an order for 3 units, \<^verbatim>\<open>update_stock\<close> rejects the
  reservation, and \<^verbatim>\<open>create_order\<close> drops that result: it answers with the success
  response, and the order stays in the order table and in the user's index while
  nothing is reserved for it.
\<close>

theorem create_order_insufficient_stock:
  "fst (update_stock ''P'' (- 3) (scenario_state 2)) = None
   \<and> \<not> isl (fst (create_order ''0123456789abcdef'' ''u1'' (scenario_items 3) ''USD''
         (scenario_state 2)))
   \<and> orders_db (snd (create_order ''0123456789abcdef'' ''u1'' (scenario_items 3) ''USD''
         (scenario_state 2))) ''ord_01234567''
     = Some \<lparr>o_id = ''ord_01234567'', o_user_id = ''u1'',
            o_items = [\<lparr>oi_product_id = ''P'', oi_quantity = 3, oi_price = 10,
                        oi_subtotal = 30\<rparr>],
            o_total = 30, o_currency = ''USD'', o_status = ''created''\<rparr>
   \<and> user_order_index (snd (create_order ''0123456789abcdef'' ''u1'' (scenario_items 3) ''USD''
         (scenario_state 2))) ''u1'' = Some [''ord_01234567'']
   \<and> stock_of (snd (create_order ''0123456789abcdef'' ''u1'' (scenario_items 3) ''USD''
         (scenario_state 2))) ''P'' = Some 2"
  by code_simp

text \<open>
  When no product is asked for more than its stock, creating an order and cancelling
  it returns every stock to its value before the order.
\<close>

lemma create_then_cancel_round_trip:
  assumes "users_db st user_id = Some u" and "u_active u" and "validate_currency currency"
    and "fst (validate_order_items st items)"
    and "\<forall>q s. stock_of st q = Some s \<longrightarrow> requested (map create_order_item items) q \<le> s"
  shows "stock_of (snd (cancel_order (o_id (create_order_model uid user_id items currency)) user_id
            (snd (create_order uid user_id items currency st)))) pid
         = stock_of st pid"
proof -
  let ?ord = "create_order_model uid user_id items currency"
  let ?its = "map create_order_item items"
  let ?st2 = "snd (create_order uid user_id items currency st)"
  let ?st3 = "?st2\<lparr>orders_db := (orders_db ?st2)(o_id ?ord \<mapsto> ?ord\<lparr>o_status := ''cancelled''\<rparr>)\<rparr>"
  have acc: "\<forall>i\<in>set items. item_accepted st i"
    using assms(4) by (simp add: validate_order_items_accepts)
  have qs: "\<forall>i\<in>set ?its. 0 \<le> oi_quantity i"
    using acc accepted_item_fields by fastforce
  have s2: "stock_of ?st2 q = map_option (\<lambda>s. s - requested ?its q) (stock_of st q)" for q
    using assms by (rule reserve_stock_of_created)
  have stored: "orders_db ?st2 (o_id ?ord) = Some ?ord"
    by (simp add: create_order_accepted [OF assms(1-4)] reserve_loop_other_tables)
  have owner: "o_user_id ?ord = user_id"
    by (simp add: create_order_model_def Let_def)
  have status: "is_valid_status_transition (o_status ?ord) ''cancelled''"
    by (simp add: create_order_model_status cancellable_statuses)
  have c: "cancel_order (o_id ?ord) user_id ?st2
      = (Inr (?ord\<lparr>o_status := ''cancelled''\<rparr>), release_order_stock_loop (o_items ?ord) ?st3)"
    using stored owner status by (rule cancel_order_success)
  have inv: "\<forall>q s. stock_of ?st3 q = Some s \<longrightarrow> 0 \<le> s"
  proof (intro allI impI)
    fix q s
    assume "stock_of ?st3 q = Some s"
    then obtain s0 where s0: "stock_of st q = Some s0" and s: "s = s0 - requested ?its q"
      by (auto simp: s2)
    from s0 assms(5) have "requested ?its q \<le> s0" by blast
    with s show "0 \<le> s" by simp
  qed
  have "stock_of (release_order_stock_loop ?its ?st3) pid
      = map_option (\<lambda>s. s + requested ?its pid) (stock_of ?st3 pid)"
    using qs inv by (rule release_loop_stock)
  then show ?thesis
    by (simp add: c create_order_model_items s2 option.map_comp comp_def option.map_ident)
qed

text \<open>
  C8. After that order, \<^verbatim>\<open>cancel_order\<close> succeeds and releases the 3 units that
  were never reserved: the stock goes from 2 to 5.
\<close>

theorem create_then_cancel_inflates_stock:
  "\<not> isl (fst (create_order ''0123456789abcdef'' ''u1'' (scenario_items 3) ''USD''
         (scenario_state 2)))
   \<and> \<not> isl (fst (cancel_order ''ord_01234567'' ''u1''
         (snd (create_order ''0123456789abcdef'' ''u1'' (scenario_items 3) ''USD''
            (scenario_state 2)))))
   \<and> stock_of (scenario_state 2) ''P'' = Some 2
   \<and> stock_of (snd (cancel_order ''ord_01234567'' ''u1''
         (snd (create_order ''0123456789abcdef'' ''u1'' (scenario_items 3) ''USD''
            (scenario_state 2))))) ''P'' = Some 5"
  by code_simp

section \<open>Reorder alerts\<close>

lemma create_order_queue_unchanged:
  "queue (snd (create_order uid user_id items currency st)) = queue st"
  by (simp add: create_order_def find_user_by_id_def Let_def create_order_record_def
      reserve_order_stock_def reserve_loop_other_tables split: option.splits)

lemma reserve_stock_queues_alert:
  assumes "products_db st pid = Some p" and "quantity \<le> p_stock p"
  shows "fst (reserve_stock uid_n uid_q pid quantity st) = Inr (quantity, p_stock p - quantity)"
    and "stock_of (snd (reserve_stock uid_n uid_q pid quantity st)) pid
           = Some (p_stock p - quantity)"
    and "p_stock p - quantity \<le> 10 \<Longrightarrow>
         queue (snd (reserve_stock uid_n uid_q pid quantity st))
           = sort_key q_priority (queue st @
               [\<lparr>q_id = generate_id ''q'' uid_q,
                 q_notification =
                   create_notification_model uid_n ''system'' ''email''
                     (''Low stock: '' @ p_name p)
                     (''Product '' @ p_sku p @ '' has only '' @ str_int (p_stock p - quantity)
                        @ '' units left.''),
                 q_priority = 1,
                 q_status = ''queued''\<rparr>])"
    and "10 < p_stock p - quantity \<Longrightarrow>
         queue (snd (reserve_stock uid_n uid_q pid quantity st)) = queue st"
  using assms
  by (simp_all add: reserve_stock_def check_availability_def find_product_by_id_def
      update_stock_def check_reorder_needed_def trigger_reorder_alert_def
      queue_notification_def sort_queue_def stock_of_def Let_def)

text \<open>
  C9. An order for 3 units of a product with stock 5 is created and leaves stock 2,
  which is at most 10, and the notification queue is as empty as before: the
  reservation of \<^verbatim>\<open>create_order\<close> queues no alert. The same reservation through
  \<^verbatim>\<open>reserve_stock\<close> queues the low-stock notification.
\<close>

theorem create_order_no_reorder_alert:
  "\<not> isl (fst (create_order ''0123456789abcdef'' ''u1'' (scenario_items 3) ''USD''
         (scenario_state 5)))
   \<and> stock_of (snd (create_order ''0123456789abcdef'' ''u1'' (scenario_items 3) ''USD''
         (scenario_state 5))) ''P'' = Some 2
   \<and> queue (scenario_state 5) = []
   \<and> queue (snd (create_order ''0123456789abcdef'' ''u1'' (scenario_items 3) ''USD''
         (scenario_state 5))) = []
   \<and> stock_of (snd (reserve_stock ''aaaaaaaaaaaa'' ''bbbbbbbbbbbb'' ''P'' 3 (scenario_state 5))) ''P''
       = Some 2
   \<and> map (\<lambda>e. n_subject (q_notification e))
        (queue (snd (reserve_stock ''aaaaaaaaaaaa'' ''bbbbbbbbbbbb'' ''P'' 3 (scenario_state 5))))
       = [''Low stock: Widget'']"
  by code_simp

end
